theory Spec2Isabelle
  imports Main
begin

section \<open>Values and exceptions of the init script\<close>

text \<open>
  The script \<^verbatim>\<open>scripts/init.py\<close> handles values decoded from JSON: the configuration
  dictionary and the dictionaries returned by the client. A JSON object is an association
  list read through \<open>map_of\<close>. Numbers are integers here; strings are byte lists, so a
  character beyond ASCII is written as its UTF-8 bytes.
\<close>

datatype jval =
    JNull
  | JBool bool
  | JInt int
  | JStr string
  | JArr "jval list"
  | JObj "(string \<times> jval) list"

text \<open>Python's truth value of an object, as \<^verbatim>\<open>if x\<close> and \<^verbatim>\<open>not x\<close> test it.\<close>

fun truthy :: "jval \<Rightarrow> bool" where
  "truthy JNull = False"
| "truthy (JBool b) = b"
| "truthy (JInt n) = (n \<noteq> 0)"
| "truthy (JStr s) = (s \<noteq> [])"
| "truthy (JArr xs) = (xs \<noteq> [])"
| "truthy (JObj kvs) = (kvs \<noteq> [])"

text \<open>
  The exceptions derived from \<^verbatim>\<open>Exception\<close> that can reach a handler of the script.
  \<open>GhostError\<close> and \<open>PermissionDeniedError\<close> are the two classes the script imports; the
  other named kinds are the error kinds of the client; \<open>AttributeError\<close> is what
  \<^verbatim>\<open>.get\<close> raises on a value that is not a dictionary.
\<close>

datatype exn =
    AttributeError
  | GhostError string
  | PermissionDeniedError string
  | InvalidCredentialsError
  | AuthenticationError
  | NotFoundError
  | ConflictError
  | RemoteApiError nat string
  | TransportError
  | DecodeError
  | OtherException string

text \<open>
  A formatted string is kept as its pieces: literal text, a value placed by \<^verbatim>\<open>{...}\<close>,
  and \<^verbatim>\<open>str(e)\<close> of an exception. Python's rendering of a value is not interpreted.
\<close>

datatype piece = Lit string | Val jval | Exc exn

type_synonym fstring = "piece list"

text \<open>\<^verbatim>\<open>d.get(k, default)\<close> on a value: only a dictionary has the method.\<close>

fun py_get :: "jval \<Rightarrow> string \<Rightarrow> jval \<Rightarrow> exn + jval" where
  "py_get (JObj kvs) k d = Inr (case map_of kvs k of Some v \<Rightarrow> v | None \<Rightarrow> d)"
| "py_get _ k d = Inl AttributeError"

text \<open>Sequencing inside a \<^verbatim>\<open>try\<close> block: the first exception ends the block.\<close>

definition then_do :: "exn + 'a \<Rightarrow> ('a \<Rightarrow> exn + 'b) \<Rightarrow> exn + 'b" where
  "then_do r f = (case r of Inl e \<Rightarrow> Inl e | Inr x \<Rightarrow> f x)"

text \<open>\<^verbatim>\<open>cfg.get(k, default)\<close> on the configuration dictionary.\<close>

definition cfg_get :: "(string \<rightharpoonup> jval) \<Rightarrow> string \<Rightarrow> jval \<Rightarrow> jval" where
  "cfg_get cfg k d = (case cfg k of Some v \<Rightarrow> v | None \<Rightarrow> d)"

text \<open>
  \<^verbatim>\<open>result.get("meta", {}).get("pagination", {}).get("total", "?")\<close>, the expression of
  lines 131, 138 and 259.
\<close>

definition pagination_total :: "jval \<Rightarrow> exn + jval" where
  "pagination_total result =
     then_do (py_get result ''meta'' (JObj []))
       (\<lambda>meta. then_do (py_get meta ''pagination'' (JObj []))
          (\<lambda>pagination. py_get pagination ''total'' (JStr ''?'')))"

section \<open>The class Results\<close>

text \<open>
  One entry of \<^verbatim>\<open>_entries\<close>; the time stamp \<^verbatim>\<open>ts\<close> is left out. Console output
  and the log file written by \<^verbatim>\<open>write_log\<close> are not part of the model.
\<close>

record entry =
  entry_status :: string
  entry_check :: string
  entry_detail :: fstring

record results =
  passed :: "string list"
  failed :: "string list"
  skipped :: "string list"
  entries :: "entry list"

definition Results :: results where
  "Results = \<lparr>passed = [], failed = [], skipped = [], entries = []\<rparr>"

definition record_entry :: "string \<Rightarrow> string \<Rightarrow> fstring \<Rightarrow> results \<Rightarrow> results" where
  "record_entry st label detail r =
     r\<lparr>entries := entries r @
          [\<lparr>entry_status = st, entry_check = label, entry_detail = detail\<rparr>]\<rparr>"

definition ok :: "string \<Rightarrow> fstring \<Rightarrow> results \<Rightarrow> results" where
  "ok label detail r = record_entry ''pass'' label detail (r\<lparr>passed := passed r @ [label]\<rparr>)"

definition fail :: "string \<Rightarrow> fstring \<Rightarrow> results \<Rightarrow> results" where
  "fail label reason r = record_entry ''fail'' label reason (r\<lparr>failed := failed r @ [label]\<rparr>)"

definition skip :: "string \<Rightarrow> fstring \<Rightarrow> results \<Rightarrow> results" where
  "skip label reason r = record_entry ''skip'' label reason (r\<lparr>skipped := skipped r @ [label]\<rparr>)"

text \<open>The three numbers \<^verbatim>\<open>summary\<close> prints: passed, total (passed + failed), skipped.\<close>

definition summary :: "results \<Rightarrow> nat \<times> nat \<times> nat" where
  "summary r = (length (passed r), length (passed r) + length (failed r), length (skipped r))"

section \<open>The client and the environment of a run\<close>

text \<open>
  The class \<^verbatim>\<open>GhostClient\<close> lives in \<^verbatim>\<open>ghost.py\<close>. The script sees it through the
  attributes it reads and through what each method call does: return a value or raise.
  Each method is called at most once in a run, so its behaviour is its outcome as a
  function of the identifier passed to it.
\<close>

record gclient =
  cfg :: "string \<rightharpoonup> jval"
  api_url :: string
  key_id :: string
  secret_hex :: string
  get_site :: "exn + jval"
  list_posts :: "exn + jval"
  list_tags :: "exn + jval"
  list_members :: "exn + jval"
  create_post :: "exn + jval"
  update_post :: "jval \<Rightarrow> exn + jval"
  publish_post :: "jval \<Rightarrow> exn + jval"
  unpublish_post :: "jval \<Rightarrow> exn + jval"
  create_tag :: "exn + jval"
  delete_post :: "jval \<Rightarrow> exn + jval"
  delete_tag :: "jval \<Rightarrow> exn + jval"

text \<open>
  What the cleanup branch uses besides the client: the import of \<^verbatim>\<open>requests\<close>,
  \<^verbatim>\<open>_make_jwt(key_id, secret_hex)\<close> and \<^verbatim>\<open>requests.delete(url, headers=...)\<close>, each of
  which returns or raises.
\<close>

record cleanup_env =
  import_requests :: "exn + unit"
  make_jwt :: "string \<Rightarrow> string \<Rightarrow> exn + string"
  requests_delete :: "fstring \<Rightarrow> fstring \<Rightarrow> exn + unit"

text \<open>
  The pre-flight part: whether the credentials file exists, what \<^verbatim>\<open>GhostClient()\<close>
  does, and which exceptions are instances of \<^verbatim>\<open>GhostError\<close> (the class hierarchy is
  declared in \<^verbatim>\<open>ghost.py\<close>).
\<close>

record env =
  creds_file_exists :: bool
  GhostClient :: "exn + gclient"
  is_GhostError :: "exn \<Rightarrow> bool"
  cleanup :: cleanup_env

text \<open>Every call that leaves the script, in the order made.\<close>

datatype call =
    GetSite
  | ListPosts
  | ListTags
  | ListMembers
  | CreatePost string
  | UpdatePost jval
  | PublishPost jval
  | UnpublishPost jval
  | CreateTag string
  | DeletePost jval
  | DeleteTag jval
  | MakeJwt string string
  | RequestsDelete fstring fstring

text \<open>
  The local variables of \<^verbatim>\<open>main\<close> that outlive a section, with the calls made so far
  and the cleanup warnings printed. Python's \<^verbatim>\<open>None\<close> is \<open>JNull\<close>.
\<close>

record run =
  res :: results
  test_post_id :: jval
  test_tag_id :: jval
  trace :: "call list"
  warnings :: "fstring list"

datatype outcome = Exit nat | Raised exn

definition TEST_TITLE :: string where
  "TEST_TITLE = ''[skill-init-test] DELETE ME''"

definition TEST_TAG :: string where
  "TEST_TAG = ''__skill-init-test__''"

definition start :: run where
  "start = \<lparr>res = Results, test_post_id = JNull, test_tag_id = JNull, trace = [], warnings = []\<rparr>"

definition called :: "call \<Rightarrow> run \<Rightarrow> run" where
  "called c s = s\<lparr>trace := trace s @ [c]\<rparr>"

definition note_ok :: "string \<Rightarrow> fstring \<Rightarrow> run \<Rightarrow> run" where
  "note_ok label detail s = s\<lparr>res := ok label detail (res s)\<rparr>"

definition note_fail :: "string \<Rightarrow> fstring \<Rightarrow> run \<Rightarrow> run" where
  "note_fail label reason s = s\<lparr>res := fail label reason (res s)\<rparr>"

definition note_skip :: "string \<Rightarrow> string \<Rightarrow> run \<Rightarrow> run" where
  "note_skip label reason s = s\<lparr>res := skip label [Lit reason] (res s)\<rparr>"

section \<open>The configuration flags as main reads them\<close>

text \<open>Lines 109, 169, 202 and 254.\<close>

definition ro_flag :: "(string \<rightharpoonup> jval) \<Rightarrow> bool" where
  "ro_flag c = truthy (cfg_get c ''readonly_mode'' (JBool False))"

definition publish_flag :: "(string \<rightharpoonup> jval) \<Rightarrow> bool" where
  "publish_flag c = truthy (cfg_get c ''allow_publish'' (JBool True))"

definition delete_flag :: "(string \<rightharpoonup> jval) \<Rightarrow> bool" where
  "delete_flag c = truthy (cfg_get c ''allow_delete'' (JBool False))"

definition member_flag :: "(string \<rightharpoonup> jval) \<Rightarrow> bool" where
  "member_flag c = truthy (cfg_get c ''allow_member_access'' (JBool False))"

section \<open>The sections of main\<close>

text \<open>Section 1, lines 117 to 124. The boolean is \<open>False\<close> when the script exits at line 124.\<close>

definition connect_check :: "gclient \<Rightarrow> run \<Rightarrow> run \<times> bool" where
  "connect_check gc s =
     (let s1 = called GetSite s in
      case then_do (get_site gc)
             (\<lambda>site. then_do (py_get site ''title'' (JStr ''?''))
                (\<lambda>title. then_do (py_get site ''version'' (JStr ''?''))
                   (\<lambda>version. Inr [Lit ''site='', Lit [CHR 0x22], Val title,
                                    Lit [CHR 0x22], Lit ''  version='', Val version]))) of
        Inr detail \<Rightarrow> (note_ok ''Connect'' detail s1, True)
      | Inl e \<Rightarrow> (note_fail ''Connect'' [Exc e] s1, False))"

text \<open>Section 2, lines 128 to 141.\<close>

definition read_posts_check :: "gclient \<Rightarrow> run \<Rightarrow> run" where
  "read_posts_check gc s =
     (let s1 = called ListPosts s in
      case then_do (list_posts gc)
             (\<lambda>result. then_do (py_get result ''posts'' (JArr []))
                (\<lambda>posts. pagination_total result)) of
        Inr tot \<Rightarrow> note_ok ''Read posts'' [Val tot, Lit '' post(s) on this instance''] s1
      | Inl e \<Rightarrow> note_fail ''Read posts'' [Exc e] s1)"

definition read_tags_check :: "gclient \<Rightarrow> run \<Rightarrow> run" where
  "read_tags_check gc s =
     (let s1 = called ListTags s in
      case then_do (list_tags gc) pagination_total of
        Inr tot \<Rightarrow> note_ok ''Read tags'' [Val tot, Lit '' tag(s) on this instance''] s1
      | Inl e \<Rightarrow> note_fail ''Read tags'' [Exc e] s1)"

text \<open>Section 3, lines 146 to 158.\<close>

definition create_check :: "gclient \<Rightarrow> run \<Rightarrow> run" where
  "create_check gc s =
     (if ro_flag (cfg gc) then note_skip ''Write (create draft)'' ''readonly_mode=true'' s
      else
        let s1 = called (CreatePost TEST_TITLE) s in
        case then_do (create_post gc) (\<lambda>post. py_get post ''id'' JNull) of
          Inr i \<Rightarrow> note_ok ''Write (create draft)'' [Lit ''id='', Val i] (s1\<lparr>test_post_id := i\<rparr>)
        | Inl e \<Rightarrow> note_fail ''Write (create draft)'' [Exc e] s1)"

text \<open>Section 4, lines 161 to 166.\<close>

definition update_check :: "gclient \<Rightarrow> run \<Rightarrow> run" where
  "update_check gc s =
     (if truthy (test_post_id s) \<and> \<not> ro_flag (cfg gc) then
        let s1 = called (UpdatePost (test_post_id s)) s in
        case update_post gc (test_post_id s) of
          Inr _ \<Rightarrow> note_ok ''Write (update post)'' [] s1
        | Inl e \<Rightarrow> note_fail ''Write (update post)'' [Exc e] s1
      else s)"

text \<open>Section 5, lines 169 to 186. The label of line 182 holds a right arrow (U+2192).\<close>

definition publish_check :: "gclient \<Rightarrow> run \<Rightarrow> run" where
  "publish_check gc s =
     (if \<not> publish_flag (cfg gc) then note_skip ''Publish / Unpublish'' ''allow_publish=false'' s
      else if ro_flag (cfg gc) then note_skip ''Publish / Unpublish'' ''readonly_mode=true'' s
      else if truthy (test_post_id s) then
        let s1 = called (PublishPost (test_post_id s)) s;
            s2 = (case publish_post gc (test_post_id s) of
                    Inr _ \<Rightarrow> note_ok ''Publish post'' [] s1
                  | Inl e \<Rightarrow> note_fail ''Publish post'' [Exc e] s1);
            s3 = called (UnpublishPost (test_post_id s)) s2
        in case unpublish_post gc (test_post_id s) of
             Inr _ \<Rightarrow> note_ok (''Unpublish post ('' @ [CHR 0xE2, CHR 0x86, CHR 0x92] @ '' draft)'') [] s3
           | Inl e \<Rightarrow> note_fail ''Unpublish post'' [Exc e] s3
      else note_skip ''Publish / Unpublish'' ''no test post created (write check failed)'' s)"

text \<open>Section 6, lines 189 to 197.\<close>

definition tag_check :: "gclient \<Rightarrow> run \<Rightarrow> run" where
  "tag_check gc s =
     (if ro_flag (cfg gc) then note_skip ''Write (create tag)'' ''readonly_mode=true'' s
      else
        let s1 = called (CreateTag TEST_TAG) s in
        case then_do (create_tag gc) (\<lambda>tag. py_get tag ''id'' JNull) of
          Inr i \<Rightarrow> note_ok ''Write (create tag)'' [Lit ''id='', Val i] (s1\<lparr>test_tag_id := i\<rparr>)
        | Inl e \<Rightarrow> note_fail ''Write (create tag)'' [Exc e] s1)"

text \<open>
  The cleanup of lines 207 to 226: one \<^verbatim>\<open>try\<close> block per artifact, whose handler
  catches every exception and prints a warning. \<open>path\<close> is \<open>/posts/\<close> or \<open>/tags/\<close>,
  \<open>what\<close> the beginning of the warning (its leading sign left out).
\<close>

definition cleanup_delete :: "cleanup_env \<Rightarrow> gclient \<Rightarrow> string \<Rightarrow> string \<Rightarrow> jval \<Rightarrow> run \<Rightarrow> run" where
  "cleanup_delete E gc path what i s =
     (let warn = (\<lambda>t. t\<lparr>warnings := warnings t @
                    [ [Lit what, Val i, Lit '' could not be cleaned up. Delete manually.'']]\<rparr>)
      in case import_requests E of
           Inl e \<Rightarrow> warn s
         | Inr _ \<Rightarrow>
             let s1 = called (MakeJwt (key_id gc) (secret_hex gc)) s in
             (case make_jwt E (key_id gc) (secret_hex gc) of
                Inl e \<Rightarrow> warn s1
              | Inr token \<Rightarrow>
                  let url = [Lit (api_url gc), Lit path, Val i];
                      auth = [Lit ''Ghost '', Lit token];
                      s2 = called (RequestsDelete url auth) s1
                  in (case requests_delete E url auth of
                        Inl e \<Rightarrow> warn s2
                      | Inr _ \<Rightarrow> s2)))"

text \<open>Section 7, lines 202 to 249.\<close>

definition delete_check :: "cleanup_env \<Rightarrow> gclient \<Rightarrow> run \<Rightarrow> run" where
  "delete_check E gc s =
     (if \<not> delete_flag (cfg gc) then
        let s1 = note_skip ''Delete (post)'' ''allow_delete=false'' s;
            s2 = note_skip ''Delete (tag)'' ''allow_delete=false'' s1;
            s3 = (if truthy (test_post_id s2)
                  then cleanup_delete E gc ''/posts/'' ''Test post '' (test_post_id s2) s2 else s2)
        in if truthy (test_tag_id s3)
           then cleanup_delete E gc ''/tags/'' ''Test tag '' (test_tag_id s3) s3 else s3
      else if ro_flag (cfg gc) then
        note_skip ''Delete (tag)'' ''readonly_mode=true''
          (note_skip ''Delete (post)'' ''readonly_mode=true'' s)
      else
        let s1 = (if truthy (test_post_id s) then
                    let t = called (DeletePost (test_post_id s)) s in
                    case delete_post gc (test_post_id s) of
                      Inr _ \<Rightarrow> note_ok ''Delete (post)'' [] (t\<lparr>test_post_id := JNull\<rparr>)
                    | Inl e \<Rightarrow> note_fail ''Delete (post)'' [Exc e] t
                  else note_skip ''Delete (post)'' ''no test post to delete'' s)
        in if truthy (test_tag_id s1) then
             let t = called (DeleteTag (test_tag_id s1)) s1 in
             case delete_tag gc (test_tag_id s1) of
               Inr _ \<Rightarrow> note_ok ''Delete (tag)'' [] (t\<lparr>test_tag_id := JNull\<rparr>)
             | Inl e \<Rightarrow> note_fail ''Delete (tag)'' [Exc e] t
           else note_skip ''Delete (tag)'' ''no test tag to delete'' s1)"

text \<open>Section 8, lines 254 to 262.\<close>

definition members_check :: "gclient \<Rightarrow> run \<Rightarrow> run" where
  "members_check gc s =
     (if \<not> member_flag (cfg gc) then
        note_skip ''Members (list)'' ''allow_member_access=false'' s
      else
        let s1 = called ListMembers s in
        case then_do (list_members gc) pagination_total of
          Inr tot \<Rightarrow> note_ok ''Members (list)'' [Val tot, Lit '' member(s)''] s1
        | Inl e \<Rightarrow> note_fail ''Members (list)'' [Exc e] s1)"

text \<open>Sections 2 to 8 in order, then the exit status of lines 272 to 276.\<close>

definition checks :: "cleanup_env \<Rightarrow> gclient \<Rightarrow> run \<Rightarrow> run" where
  "checks E gc s =
     members_check gc (delete_check E gc (tag_check gc (publish_check gc
       (update_check gc (create_check gc (read_tags_check gc (read_posts_check gc s)))))))"

definition exit_status :: "results \<Rightarrow> outcome" where
  "exit_status r = (if failed r \<noteq> [] then Exit 1 else Exit 0)"

text \<open>
  \<^verbatim>\<open>main\<close>, lines 91 to 276. Only \<^verbatim>\<open>GhostError\<close> is caught around the constructor;
  any other exception leaves the script.
\<close>

definition main :: "env \<Rightarrow> outcome \<times> run" where
  "main V =
     (if \<not> creds_file_exists V then (Exit 1, start)
      else case GhostClient V of
        Inl e \<Rightarrow> (if is_GhostError V e then (Exit 1, start) else (Raised e, start))
      | Inr gc \<Rightarrow>
          (case connect_check gc start of
             (s, False) \<Rightarrow> (Exit 1, s)
           | (s, True) \<Rightarrow>
               let t = checks (cleanup V) gc s in (exit_status (res t), t)))"

section \<open>The policy of a run and the calls it permits\<close>

text \<open>
  The policy and the operation kinds are those of the data model (section 3 of the
  specification); the script holds the policy as the four flags of its configuration.
\<close>

record policy_config =
  readonly_mode :: bool
  allow_publish :: bool
  allow_delete :: bool
  allow_member_access :: bool

datatype operation_kind = Read | Write | Publish | Unpublish | Delete | MemberRead

datatype decision = Allow | Deny string

text \<open>
  The decision \<^verbatim>\<open>main\<close> takes before the calls of each kind, with the reason it records
  when it skips them. There is no test before the reads (lines 117 to 141);
  \<^verbatim>\<open>readonly_mode\<close> is tested before the writes (lines 146, 161 and 189);
  \<^verbatim>\<open>allow_publish\<close>, then \<^verbatim>\<open>readonly_mode\<close>, before publish and unpublish (lines 169
  to 172); \<^verbatim>\<open>allow_delete\<close>, then \<^verbatim>\<open>readonly_mode\<close>, before the deletes (lines 202 and
  227); \<^verbatim>\<open>allow_member_access\<close> before the member list (line 254). The class
  \<^verbatim>\<open>GhostClient\<close> itself is in \<^verbatim>\<open>ghost.py\<close>, which is not among the sources; these
  tests are the only place of the sources that orders the rules.
\<close>

fun check :: "operation_kind \<Rightarrow> policy_config \<Rightarrow> decision" where
  "check Read policy = Allow"
| "check Write policy = (if readonly_mode policy then Deny ''readonly_mode=true'' else Allow)"
| "check Publish policy =
     (if \<not> allow_publish policy then Deny ''allow_publish=false''
      else if readonly_mode policy then Deny ''readonly_mode=true'' else Allow)"
| "check Unpublish policy =
     (if \<not> allow_publish policy then Deny ''allow_publish=false''
      else if readonly_mode policy then Deny ''readonly_mode=true'' else Allow)"
| "check Delete policy =
     (if \<not> allow_delete policy then Deny ''allow_delete=false''
      else if readonly_mode policy then Deny ''readonly_mode=true'' else Allow)"
| "check MemberRead policy =
     (if \<not> allow_member_access policy then Deny ''allow_member_access=false'' else Allow)"

text \<open>
  Modelled from the spec: the Permission Gate of section 4.2, \<open>check(kind, policy)\<close> there,
  which belongs to \<^verbatim>\<open>ghost.py\<close> and is not among the sources. The decision table in
  the words of the specification, the first rule that matches first. It has the name
  \<open>spec_check\<close> here, beside the decision \<open>check\<close> that the script takes on its own.
\<close>

definition spec_check :: "operation_kind \<Rightarrow> policy_config \<Rightarrow> decision" where
  "spec_check kind policy =
     (if readonly_mode policy \<and> kind \<noteq> Read \<and> kind \<noteq> MemberRead then Deny ''readonly_mode''
      else if (kind = Publish \<or> kind = Unpublish) \<and> \<not> allow_publish policy
        then Deny ''allow_publish=false''
      else if kind = Delete \<and> \<not> allow_delete policy then Deny ''allow_delete=false''
      else if kind = MemberRead \<and> \<not> allow_member_access policy
        then Deny ''allow_member_access=false''
      else Allow)"

text \<open>The policy a configuration dictionary stands for, read as \<^verbatim>\<open>main\<close> reads it.\<close>

definition policy_of :: "(string \<rightharpoonup> jval) \<Rightarrow> policy_config" where
  "policy_of c =
     \<lparr>readonly_mode = ro_flag c, allow_publish = publish_flag c,
      allow_delete = delete_flag c, allow_member_access = member_flag c\<rparr>"

text \<open>
  The operation kind of each client method (section 4.4 of the specification). The two
  calls of the cleanup branch are not client operations and have no kind.
\<close>

fun kind_of :: "call \<Rightarrow> operation_kind option" where
  "kind_of GetSite = Some Read"
| "kind_of ListPosts = Some Read"
| "kind_of ListTags = Some Read"
| "kind_of ListMembers = Some MemberRead"
| "kind_of (CreatePost t) = Some Write"
| "kind_of (UpdatePost i) = Some Write"
| "kind_of (PublishPost i) = Some Publish"
| "kind_of (UnpublishPost i) = Some Unpublish"
| "kind_of (CreateTag n) = Some Write"
| "kind_of (DeletePost i) = Some Delete"
| "kind_of (DeleteTag i) = Some Delete"
| "kind_of (MakeJwt k h) = None"
| "kind_of (RequestsDelete u a) = None"

text \<open>A call that changes the remote instance.\<close>

fun mutating :: "call \<Rightarrow> bool" where
  "mutating GetSite = False"
| "mutating ListPosts = False"
| "mutating ListTags = False"
| "mutating ListMembers = False"
| "mutating (MakeJwt k h) = False"
| "mutating c = True"

text \<open>
  The identifier the script keeps after \<^verbatim>\<open>create_post\<close> (line 155) and after
  \<^verbatim>\<open>create_tag\<close> (line 194).
\<close>

definition created_post :: "gclient \<Rightarrow> exn + jval" where
  "created_post gc = then_do (create_post gc) (\<lambda>post. py_get post ''id'' JNull)"

definition created_tag :: "gclient \<Rightarrow> exn + jval" where
  "created_tag gc = then_do (create_tag gc) (\<lambda>tag. py_get tag ''id'' JNull)"

text \<open>The address of a cleanup request: the test post or the test tag of this run.\<close>

definition cleanup_target :: "gclient \<Rightarrow> fstring \<Rightarrow> bool" where
  "cleanup_target gc u =
     ((case created_post gc of
         Inr i \<Rightarrow> truthy i \<and> u = [Lit (api_url gc), Lit ''/posts/'', Val i]
       | Inl e \<Rightarrow> False) \<or>
      (case created_tag gc of
         Inr i \<Rightarrow> truthy i \<and> u = [Lit (api_url gc), Lit ''/tags/'', Val i]
       | Inl e \<Rightarrow> False))"

text \<open>
  What a run with client \<open>gc\<close> may do: a client operation whose kind the gate allows under
  the loaded configuration, or a call of the cleanup branch, which is only there when
  \<^verbatim>\<open>allow_delete\<close> is off and \<^verbatim>\<open>readonly_mode\<close> is off, and whose request goes to
  the test post or the test tag.
\<close>

definition permitted :: "gclient \<Rightarrow> call \<Rightarrow> bool" where
  "permitted gc c =
     (case kind_of c of
        Some k \<Rightarrow> check k (policy_of (cfg gc)) = Allow
      | None \<Rightarrow>
          \<not> delete_flag (cfg gc) \<and> \<not> ro_flag (cfg gc) \<and>
          (case c of RequestsDelete u a \<Rightarrow> cleanup_target gc u | _ \<Rightarrow> True))"

definition gated_run :: "gclient \<Rightarrow> run \<Rightarrow> bool" where
  "gated_run gc s =
     ((\<forall>c \<in> set (trace s). permitted gc c) \<and>
      (ro_flag (cfg gc) \<longrightarrow> test_post_id s = JNull \<and> test_tag_id s = JNull) \<and>
      (truthy (test_post_id s) \<longrightarrow> created_post gc = Inr (test_post_id s)) \<and>
      (truthy (test_tag_id s) \<longrightarrow> created_tag gc = Inr (test_tag_id s)))"

text \<open>Two states that agree on everything but the calls made and the warnings printed.\<close>

definition same_results :: "run \<Rightarrow> run \<Rightarrow> bool" where
  "same_results s t =
     (res s = res t \<and> test_post_id s = test_post_id t \<and> test_tag_id s = test_tag_id t)"

text \<open>
  A list response in which \<^verbatim>\<open>meta.pagination.total\<close> is missing: the response is an
  object, and along the path each of \<^verbatim>\<open>meta\<close> and \<^verbatim>\<open>pagination\<close> is absent or an
  object, with no \<^verbatim>\<open>total\<close> at the end.
\<close>

definition total_missing :: "jval \<Rightarrow> bool" where
  "total_missing result =
     (case result of
        JObj kvs \<Rightarrow>
          (case map_of kvs ''meta'' of
             None \<Rightarrow> True
           | Some (JObj m) \<Rightarrow>
               (case map_of m ''pagination'' of
                  None \<Rightarrow> True
                | Some (JObj p) \<Rightarrow> map_of p ''total'' = None
                | Some _ \<Rightarrow> False)
           | Some _ \<Rightarrow> False)
      | _ \<Rightarrow> False)"

section \<open>The token generator, modelled from the specification\<close>

text \<open>
  Modelled from the spec: \<^verbatim>\<open>_make_jwt\<close> is defined in \<^verbatim>\<open>ghost.py\<close>, which is not among
  the sources. Section 4.1 gives \<open>mint(credentials, now)\<close>: a header with the algorithm and
  the key identifier, a payload with issue time, expiry 300 seconds later and a fixed
  audience, the two encoded as segments, and a keyed hash of the two segments joined by a dot
  under the secret decoded from hexadecimal.
\<close>

record credentials =
  cred_key_id :: string
  cred_secret :: string

record token_header =
  algorithm :: string
  token_type :: string
  kid :: string

record token_payload =
  issued_at :: int
  expires_at :: int
  audience :: string

record auth_token =
  header :: token_header
  payload :: token_payload
  signature :: "nat list"

record http_response =
  status :: nat
  body :: string

text \<open>
  What the specification leaves to libraries or does not fix: the names written into the
  token, the encoding of a segment, the keyed hash, the two header values of a request, the
  JSON parser, the excerpt of an error body, the report of a stale update, and the result
  for a status outside the classes section 4.3 lists.
\<close>

record primitives =
  algorithm_name :: string
  type_name :: string
  audience_value :: string
  header_segment :: "token_header \<Rightarrow> string"
  payload_segment :: "token_payload \<Rightarrow> string"
  bytes_segment :: "nat list \<Rightarrow> string"
  hmac :: "nat list \<Rightarrow> string \<Rightarrow> nat list"
  auth_scheme :: string
  version_value :: string
  parse_json :: "string \<Rightarrow> jval option"
  excerpt :: "string \<Rightarrow> string"
  stale_report :: "http_response \<Rightarrow> bool"
  other_status :: "http_response \<Rightarrow> exn + jval"

text \<open>The secret is written in hexadecimal, two digits a byte, in either case.\<close>

definition hex_digit :: "char \<Rightarrow> nat option" where
  "hex_digit c =
     (let n = (of_char c :: nat) in
      if 48 \<le> n \<and> n \<le> 57 then Some (n - 48)
      else if 97 \<le> n \<and> n \<le> 102 then Some (n - 87)
      else if 65 \<le> n \<and> n \<le> 70 then Some (n - 55)
      else None)"

fun hex_decode :: "string \<Rightarrow> nat list option" where
  "hex_decode [] = Some []"
| "hex_decode [a] = None"
| "hex_decode (a # b # cs) =
     (case (hex_digit a, hex_digit b, hex_decode cs) of
        (Some x, Some y, Some r) \<Rightarrow> Some ((16 * x + y) # r)
      | _ \<Rightarrow> None)"

text \<open>
  Modelled from the spec: \<open>mint\<close> of section 4.1. A secret that does not decode raises
  \<open>InvalidCredentialsError\<close> (section 7). The time is an argument; the script calls
  \<^verbatim>\<open>_make_jwt(gc._key_id, gc._secret_hex)\<close> with the two credentials only (lines 210 and
  220).
\<close>

definition mint :: "primitives \<Rightarrow> credentials \<Rightarrow> int \<Rightarrow> exn + auth_token" where
  "mint P creds now =
     (case hex_decode (cred_secret creds) of
        None \<Rightarrow> Inl InvalidCredentialsError
      | Some key \<Rightarrow>
          let h = \<lparr>algorithm = algorithm_name P, token_type = type_name P,
                   kid = cred_key_id creds\<rparr>;
              p = \<lparr>issued_at = now, expires_at = now + 300, audience = audience_value P\<rparr>;
              signing_input = header_segment P h @ ''.'' @ payload_segment P p
          in Inr \<lparr>header = h, payload = p, signature = hmac P key signing_input\<rparr>)"

text \<open>The token on the wire: three segments joined by dots.\<close>

definition token_string :: "primitives \<Rightarrow> auth_token \<Rightarrow> string" where
  "token_string P tok =
     header_segment P (header tok) @ ''.'' @ payload_segment P (payload tok) @ ''.'' @
     bytes_segment P (signature tok)"

section \<open>The request executor and the resource operations, modelled from the specification\<close>

text \<open>
  Modelled from the spec: the request executor of section 4.3 and the resource operations
  of section 4.4 belong to \<^verbatim>\<open>ghost.py\<close>, which is not among the sources. The transport is
  a function of the state of the remote side: it answers a request with a response, or
  with \<open>None\<close> when the transport fails, and gives the new state.
\<close>

record http_request =
  req_method :: string
  req_path :: string
  req_body :: "jval option"
  req_authorization :: string
  req_version :: string

type_synonym 'srv transport = "'srv \<Rightarrow> http_request \<Rightarrow> http_response option \<times> 'srv"

definition build_request ::
  "primitives \<Rightarrow> auth_token \<Rightarrow> string \<Rightarrow> string \<Rightarrow> jval option \<Rightarrow> http_request" where
  "build_request P tok m path b =
     \<lparr>req_method = m, req_path = path, req_body = b,
      req_authorization = auth_scheme P @ '' '' @ token_string P tok,
      req_version = version_value P\<rparr>"

text \<open>
  Mint a token and send the request. The second component lists the requests that went
  out, the third is the remote state afterwards.
\<close>

definition send ::
  "primitives \<Rightarrow> 'srv transport \<Rightarrow> credentials \<Rightarrow> int \<Rightarrow> string \<Rightarrow> string \<Rightarrow> jval option \<Rightarrow> 'srv
     \<Rightarrow> (exn + http_response) \<times> http_request list \<times> 'srv" where
  "send P T creds now m path b srv =
     (case mint P creds now of
        Inl e \<Rightarrow> (Inl e, [], srv)
      | Inr tok \<Rightarrow>
          let req = build_request P tok m path b in
          (case T srv req of
             (None, srv') \<Rightarrow> (Inl TransportError, [req], srv')
           | (Some resp, srv') \<Rightarrow> (Inr resp, [req], srv')))"

text \<open>
  Modelled from the spec: the classes of section 4.3, by status. A body of a 2xx response
  that does not parse raises \<open>DecodeError\<close>.
\<close>

definition interpret_response :: "primitives \<Rightarrow> http_response \<Rightarrow> exn + jval" where
  "interpret_response P resp =
     (if 200 \<le> status resp \<and> status resp < 300 then
        (case parse_json P (body resp) of None \<Rightarrow> Inl DecodeError | Some j \<Rightarrow> Inr j)
      else if status resp = 401 \<or> status resp = 403 then Inl AuthenticationError
      else if status resp = 404 then Inl NotFoundError
      else if 400 \<le> status resp \<and> status resp < 600 then
        Inl (RemoteApiError (status resp) (excerpt P (body resp)))
      else other_status P resp)"

text \<open>Modelled from the spec: \<open>execute\<close> of section 4.3, with no retry.\<close>

definition execute ::
  "primitives \<Rightarrow> 'srv transport \<Rightarrow> credentials \<Rightarrow> int \<Rightarrow> string \<Rightarrow> string \<Rightarrow> jval option \<Rightarrow> 'srv
     \<Rightarrow> (exn + jval) \<times> http_request list \<times> 'srv" where
  "execute P T creds now m path b srv =
     (case send P T creds now m path b srv of
        (r, reqs, srv') \<Rightarrow> (then_do r (interpret_response P), reqs, srv'))"

text \<open>
  Modelled from the spec: a resource operation of section 4.4, which belongs to
  \<^verbatim>\<open>ghost.py\<close>: classify the kind, consult the Permission Gate of section 4.2, and only
  if it allows, call the executor. A denial raises \<open>PermissionDeniedError\<close> with the reason
  of the gate, and no request goes out.
\<close>

definition resource_op ::
  "primitives \<Rightarrow> 'srv transport \<Rightarrow> policy_config \<Rightarrow> credentials \<Rightarrow> int \<Rightarrow> operation_kind
     \<Rightarrow> string \<Rightarrow> string \<Rightarrow> jval option \<Rightarrow> 'srv \<Rightarrow> (exn + jval) \<times> http_request list \<times> 'srv" where
  "resource_op P T policy creds now kind m path b srv =
     (case spec_check kind policy of
        Deny reason \<Rightarrow> (Inl (PermissionDeniedError reason), [], srv)
      | Allow \<Rightarrow> execute P T creds now m path b srv)"

text \<open>
  Modelled from the spec: \<open>deletePost\<close> of sections 4.4 and 6, of kind \<open>Delete\<close>. The
  method and the path are those of the request the script sends itself at line 211.
\<close>

definition deletePost ::
  "primitives \<Rightarrow> 'srv transport \<Rightarrow> policy_config \<Rightarrow> credentials \<Rightarrow> int \<Rightarrow> string \<Rightarrow> 'srv
     \<Rightarrow> (exn + jval) \<times> http_request list \<times> 'srv" where
  "deletePost P T policy creds now i srv =
     resource_op P T policy creds now Delete ''DELETE'' (''/posts/'' @ i) None srv"







section \<open>Concrete runs\<close>

text \<open>
  A client whose calls all succeed: the test post gets the identifier \<open>p1\<close>, the test tag
  \<open>t1\<close>; the three list responses lack \<^verbatim>\<open>total\<close> at the three levels of the path.
\<close>

definition demo_client :: "(string \<rightharpoonup> jval) \<Rightarrow> gclient" where
  "demo_client c =
     \<lparr>cfg = c, api_url = ''https://blog.example/ghost/api/admin'',
      key_id = ''k1'', secret_hex = ''00ff'',
      get_site = Inr (JObj [(''title'', JStr ''Blog''), (''version'', JStr ''5.0'')]),
      list_posts = Inr (JObj [(''posts'', JArr []), (''meta'', JObj [(''pagination'', JObj [])])]),
      list_tags = Inr (JObj [(''tags'', JArr [])]),
      list_members = Inr (JObj [(''members'', JArr []), (''meta'', JObj [])]),
      create_post = Inr (JObj [(''id'', JStr ''p1'')]),
      update_post = (\<lambda>i. Inr (JObj [])),
      publish_post = (\<lambda>i. Inr (JObj [])),
      unpublish_post = (\<lambda>i. Inr (JObj [])),
      create_tag = Inr (JObj [(''id'', JStr ''t1'')]),
      delete_post = (\<lambda>i. Inr JNull),
      delete_tag = (\<lambda>i. Inr JNull)\<rparr>"

definition working_cleanup :: cleanup_env where
  "working_cleanup =
     \<lparr>import_requests = Inr (), make_jwt = (\<lambda>k h. Inr ''tok''),
      requests_delete = (\<lambda>u a. Inr ())\<rparr>"

definition failing_cleanup :: cleanup_env where
  "failing_cleanup =
     \<lparr>import_requests = Inr (), make_jwt = (\<lambda>k h. Inr ''tok''),
      requests_delete = (\<lambda>u a. Inl (OtherException ''ConnectionError''))\<rparr>"

definition locked_policy :: policy_config where
  "locked_policy =
     \<lparr>readonly_mode = True, allow_publish = False, allow_delete = False,
      allow_member_access = False\<rparr>"

definition no_keys :: "string \<rightharpoonup> jval" where
  "no_keys = Map.empty"

definition readonly_cfg :: "string \<rightharpoonup> jval" where
  "readonly_cfg = [''readonly_mode'' \<mapsto> JBool True, ''allow_publish'' \<mapsto> JBool False]"

definition demo_env :: "(string \<rightharpoonup> jval) \<Rightarrow> cleanup_env \<Rightarrow> env" where
  "demo_env c E =
     \<lparr>creds_file_exists = True, GhostClient = Inr (demo_client c),
      is_GhostError = (\<lambda>e. case e of GhostError m \<Rightarrow> True | _ \<Rightarrow> False),
      cleanup = E\<rparr>"

text \<open>
  Primitives, credentials, policies and a transport that answers every request with status
  403, for the concrete runs of the client core.
\<close>

definition demo_primitives :: primitives where
  "demo_primitives =
     \<lparr>algorithm_name = ''HS256'', type_name = ''JWT'', audience_value = ''/admin/'',
      header_segment = (\<lambda>h. ''h''), payload_segment = (\<lambda>p. ''p''),
      bytes_segment = (\<lambda>b. ''s''), hmac = (\<lambda>k m. []),
      auth_scheme = ''Ghost'', version_value = ''v5.0'',
      parse_json = (\<lambda>s. Some (JObj [])), excerpt = take 200,
      stale_report = (\<lambda>r. status r = 409),
      other_status = (\<lambda>r. Inl (RemoteApiError (status r) []))\<rparr>"

definition demo_creds :: credentials where
  "demo_creds = \<lparr>cred_key_id = ''k1'', cred_secret = ''00ff''\<rparr>"

definition open_policy :: policy_config where
  "open_policy =
     \<lparr>readonly_mode = False, allow_publish = True, allow_delete = False,
      allow_member_access = False\<rparr>"

definition forbidding :: "unit transport" where
  "forbidding srv req = (Some \<lparr>status = 403, body = ''Forbidden''\<rparr>, srv)"





definition post_of_path :: "string \<Rightarrow> string option" where
  "post_of_path p = (if take 7 p = ''/posts/'' then Some (drop 7 p) else None)"





section \<open>Facts about the sections of main\<close>

lemmas flag_defs = ro_flag_def publish_flag_def delete_flag_def member_flag_def cfg_get_def

lemmas section_defs =
  connect_check_def read_posts_check_def read_tags_check_def create_check_def update_check_def
  publish_check_def tag_check_def delete_check_def members_check_def cleanup_delete_def

lemmas results_defs = ok_def fail_def skip_def record_entry_def Results_def

lemma run_proj [simp]:
  "trace (called c s) = trace s @ [c]" "test_post_id (called c s) = test_post_id s"
  "test_tag_id (called c s) = test_tag_id s" "res (called c s) = res s"
  "trace (note_ok l d s) = trace s" "test_post_id (note_ok l d s) = test_post_id s"
  "test_tag_id (note_ok l d s) = test_tag_id s" "res (note_ok l d s) = ok l d (res s)"
  "trace (note_fail l d s) = trace s" "test_post_id (note_fail l d s) = test_post_id s"
  "test_tag_id (note_fail l d s) = test_tag_id s" "res (note_fail l d s) = fail l d (res s)"
  "trace (note_skip l r s) = trace s" "test_post_id (note_skip l r s) = test_post_id s"
  "test_tag_id (note_skip l r s) = test_tag_id s" "res (note_skip l r s) = skip l [Lit r] (res s)"
  by (simp_all add: called_def note_ok_def note_fail_def note_skip_def)

lemma permitted_simps [simp]:
  "permitted gc GetSite" "permitted gc ListPosts" "permitted gc ListTags"
  "permitted gc ListMembers = member_flag (cfg gc)"
  "permitted gc (CreatePost t) = (\<not> ro_flag (cfg gc))"
  "permitted gc (UpdatePost i) = (\<not> ro_flag (cfg gc))"
  "permitted gc (PublishPost i) = (\<not> ro_flag (cfg gc) \<and> publish_flag (cfg gc))"
  "permitted gc (UnpublishPost i) = (\<not> ro_flag (cfg gc) \<and> publish_flag (cfg gc))"
  "permitted gc (CreateTag n) = (\<not> ro_flag (cfg gc))"
  "permitted gc (DeletePost i) = (\<not> ro_flag (cfg gc) \<and> delete_flag (cfg gc))"
  "permitted gc (DeleteTag i) = (\<not> ro_flag (cfg gc) \<and> delete_flag (cfg gc))"
  "permitted gc (MakeJwt k h) = (\<not> delete_flag (cfg gc) \<and> \<not> ro_flag (cfg gc))"
  "permitted gc (RequestsDelete u a) =
     (\<not> delete_flag (cfg gc) \<and> \<not> ro_flag (cfg gc) \<and> cleanup_target gc u)"
  by (auto simp add: permitted_def policy_of_def)

lemma gated_note [simp]:
  "gated_run gc (note_ok l d s) = gated_run gc s"
  "gated_run gc (note_fail l d s) = gated_run gc s"
  "gated_run gc (note_skip l r s) = gated_run gc s"
  "gated_run gc (called c s) = (gated_run gc s \<and> permitted gc c)"
  by (auto simp add: gated_run_def)

lemma gated_truthy:
  "gated_run gc s \<Longrightarrow> truthy (test_post_id s) \<or> truthy (test_tag_id s) \<Longrightarrow> \<not> ro_flag (cfg gc)"
  by (auto simp add: gated_run_def)

lemma gated_start: "gated_run gc start"
  by (simp add: gated_run_def start_def)

lemma gated_connect: "gated_run gc s \<Longrightarrow> gated_run gc (fst (connect_check gc s))"
  by (auto simp add: connect_check_def Let_def split: sum.splits)

lemma gated_read_posts: "gated_run gc s \<Longrightarrow> gated_run gc (read_posts_check gc s)"
  by (auto simp add: read_posts_check_def Let_def split: sum.splits)

lemma gated_read_tags: "gated_run gc s \<Longrightarrow> gated_run gc (read_tags_check gc s)"
  by (auto simp add: read_tags_check_def Let_def split: sum.splits)

lemma gated_create: "gated_run gc s \<Longrightarrow> gated_run gc (create_check gc s)"
  by (auto simp add: gated_run_def create_check_def created_post_def Let_def split: sum.splits)

lemma gated_update: "gated_run gc s \<Longrightarrow> gated_run gc (update_check gc s)"
  by (auto simp add: update_check_def Let_def dest: gated_truthy split: sum.splits)

lemma gated_publish: "gated_run gc s \<Longrightarrow> gated_run gc (publish_check gc s)"
  by (auto simp add: publish_check_def Let_def split: sum.splits)

lemma gated_tag: "gated_run gc s \<Longrightarrow> gated_run gc (tag_check gc s)"
  by (auto simp add: gated_run_def tag_check_def created_tag_def Let_def split: sum.splits)

lemma gated_members: "gated_run gc s \<Longrightarrow> gated_run gc (members_check gc s)"
  by (auto simp add: members_check_def Let_def split: sum.splits)

lemma cleanup_delete_proj [simp]:
  "res (cleanup_delete E gc p w i s) = res s"
  "test_post_id (cleanup_delete E gc p w i s) = test_post_id s"
  "test_tag_id (cleanup_delete E gc p w i s) = test_tag_id s"
  by (simp_all add: cleanup_delete_def Let_def split: sum.splits)

lemma cleanup_delete_trace:
  "set (trace (cleanup_delete E gc p w i s)) \<subseteq>
     set (trace s) \<union> {MakeJwt (key_id gc) (secret_hex gc)} \<union>
     {RequestsDelete [Lit (api_url gc), Lit p, Val i] a | a. True}"
  by (auto simp add: cleanup_delete_def Let_def split: sum.splits)

lemma gated_cleanup_delete:
  "gated_run gc s \<Longrightarrow> \<not> delete_flag (cfg gc) \<Longrightarrow> \<not> ro_flag (cfg gc) \<Longrightarrow>
   cleanup_target gc [Lit (api_url gc), Lit p, Val i] \<Longrightarrow>
   gated_run gc (cleanup_delete E gc p w i s)"
  using cleanup_delete_trace [of E gc p w i s]
  by (auto simp add: gated_run_def)

lemma gated_post_target:
  "gated_run gc s \<Longrightarrow> truthy (test_post_id s) \<Longrightarrow>
   cleanup_target gc [Lit (api_url gc), Lit ''/posts/'', Val (test_post_id s)]"
  by (simp add: gated_run_def cleanup_target_def)

lemma gated_tag_target:
  "gated_run gc s \<Longrightarrow> truthy (test_tag_id s) \<Longrightarrow>
   cleanup_target gc [Lit (api_url gc), Lit ''/tags/'', Val (test_tag_id s)]"
  by (simp add: gated_run_def cleanup_target_def)

lemma gated_delete:
  assumes g: "gated_run gc s"
  shows "gated_run gc (delete_check E gc s)"
proof (cases "delete_flag (cfg gc)")
  case False
  define s2 where "s2 = note_skip ''Delete (tag)'' ''allow_delete=false''
                          (note_skip ''Delete (post)'' ''allow_delete=false'' s)"
  define s3 where "s3 = (if truthy (test_post_id s2)
       then cleanup_delete E gc ''/posts/'' ''Test post '' (test_post_id s2) s2 else s2)"
  have g2: "gated_run gc s2" using g by (simp add: s2_def)
  have g3: "gated_run gc s3"
    using g2 False gated_truthy [OF g2] gated_post_target [OF g2]
    by (auto simp add: s3_def intro: gated_cleanup_delete)
  have eq: "delete_check E gc s = (if truthy (test_tag_id s3)
       then cleanup_delete E gc ''/tags/'' ''Test tag '' (test_tag_id s3) s3 else s3)"
    using False by (simp add: delete_check_def Let_def s2_def s3_def)
  show ?thesis
    unfolding eq using g3 False gated_truthy [OF g3] gated_tag_target [OF g3]
    by (auto intro: gated_cleanup_delete)
next
  case True
  show ?thesis
  proof (cases "ro_flag (cfg gc)")
    case ro: True
    then show ?thesis using g True by (simp add: delete_check_def)
  next
    case nro: False
    then show ?thesis using g True
      by (auto simp add: delete_check_def gated_run_def Let_def split: sum.splits)
  qed
qed

lemma gated_checks: "gated_run gc s \<Longrightarrow> gated_run gc (checks E gc s)"
  unfolding checks_def
  by (intro gated_members gated_delete gated_tag gated_publish gated_update gated_create
        gated_read_tags gated_read_posts)

lemma main_run:
  "GhostClient V = Inr gc \<Longrightarrow> creds_file_exists V \<Longrightarrow>
   snd (main V) = (if snd (connect_check gc start)
                   then checks (cleanup V) gc (fst (connect_check gc start))
                   else fst (connect_check gc start))"
  by (auto simp add: main_def Let_def split: prod.splits bool.splits)

lemma main_no_creds: "\<not> creds_file_exists V \<Longrightarrow> main V = (Exit 1, start)"
  by (simp add: main_def)

lemma gated_main:
  assumes "GhostClient V = Inr gc"
  shows "gated_run gc (snd (main V))"
proof (cases "creds_file_exists V")
  case True
  have c: "gated_run gc (fst (connect_check gc start))"
    by (rule gated_connect [OF gated_start])
  show ?thesis
    using c gated_checks [OF c, of "cleanup V"] by (simp add: main_run [OF assms True])
next
  case False
  then show ?thesis by (simp add: main_no_creds gated_start)
qed

lemma results_proj [simp]:
  "skipped (ok l d r) = skipped r" "skipped (fail l d r) = skipped r"
  "skipped (skip l d r) = skipped r @ [l]"
  "failed (ok l d r) = failed r" "failed (fail l d r) = failed r @ [l]"
  "failed (skip l d r) = failed r"
  "passed (ok l d r) = passed r @ [l]" "passed (fail l d r) = passed r"
  "passed (skip l d r) = passed r"
  by (simp_all add: results_defs)

lemma connect_proj [simp]:
  "test_post_id (fst (connect_check gc s)) = test_post_id s"
  "test_tag_id (fst (connect_check gc s)) = test_tag_id s"
  "skipped (res (fst (connect_check gc s))) = skipped (res s)"
  by (simp_all add: connect_check_def Let_def split: sum.splits)

lemma read_proj [simp]:
  "test_post_id (read_posts_check gc s) = test_post_id s"
  "test_tag_id (read_posts_check gc s) = test_tag_id s"
  "skipped (res (read_posts_check gc s)) = skipped (res s)"
  "test_post_id (read_tags_check gc s) = test_post_id s"
  "test_tag_id (read_tags_check gc s) = test_tag_id s"
  "skipped (res (read_tags_check gc s)) = skipped (res s)"
  by (simp_all add: read_posts_check_def read_tags_check_def Let_def split: sum.splits)

lemma members_skipped:
  "skipped (res (members_check gc s)) =
     skipped (res s) @ (if member_flag (cfg gc) then [] else [''Members (list)''])"
  by (simp add: members_check_def Let_def split: sum.splits)

lemma readonly_permitted:
  "ro_flag (cfg gc) \<Longrightarrow> permitted gc c \<Longrightarrow> c \<in> {GetSite, ListPosts, ListTags, ListMembers}"
  by (cases c) simp_all

lemma readonly_checks_skipped:
  assumes "ro_flag (cfg gc)" "test_post_id s = JNull" "test_tag_id s = JNull"
  shows "skipped (res (checks E gc s)) =
           skipped (res s) @
           [''Write (create draft)'', ''Publish / Unpublish'', ''Write (create tag)'',
            ''Delete (post)'', ''Delete (tag)''] @
           (if member_flag (cfg gc) then [] else [''Members (list)''])"
  using assms
  by (simp add: checks_def members_skipped create_check_def update_check_def publish_check_def
        tag_check_def delete_check_def Let_def)

text \<open>Each section skips with the reason of the decision, where the decision is a denial.\<close>

lemma create_follows_gate:
  "check Write (policy_of (cfg gc)) = Deny r \<Longrightarrow>
   create_check gc s = note_skip ''Write (create draft)'' r s"
  by (auto simp add: create_check_def policy_of_def split: if_splits)

lemma publish_follows_gate:
  "check Publish (policy_of (cfg gc)) = Deny r \<Longrightarrow>
   publish_check gc s = note_skip ''Publish / Unpublish'' r s"
  by (auto simp add: publish_check_def policy_of_def split: if_splits)

lemma tag_follows_gate:
  "check Write (policy_of (cfg gc)) = Deny r \<Longrightarrow>
   tag_check gc s = note_skip ''Write (create tag)'' r s"
  by (auto simp add: tag_check_def policy_of_def split: if_splits)

lemma delete_follows_gate:
  "check Delete (policy_of (cfg gc)) = Deny r \<Longrightarrow>
   res (delete_check E gc s) =
     skip ''Delete (tag)'' [Lit r] (skip ''Delete (post)'' [Lit r] (res s))"
  by (auto simp add: delete_check_def policy_of_def Let_def split: if_splits)

lemma members_follows_gate:
  "check MemberRead (policy_of (cfg gc)) = Deny r \<Longrightarrow>
   members_check gc s = note_skip ''Members (list)'' r s"
  by (auto simp add: members_check_def policy_of_def split: if_splits)

text \<open>The sections read the state only through the results and the two identifiers.\<close>

lemma same_results_refl [simp]: "same_results s s"
  by (simp add: same_results_def)

lemma same_connect:
  "same_results s t \<Longrightarrow>
   same_results (fst (connect_check gc s)) (fst (connect_check gc t)) \<and>
   snd (connect_check gc s) = snd (connect_check gc t)"
  by (auto simp add: same_results_def connect_check_def Let_def split: sum.splits)

lemma same_read_posts:
  "same_results s t \<Longrightarrow> same_results (read_posts_check gc s) (read_posts_check gc t)"
  by (auto simp add: same_results_def read_posts_check_def Let_def split: sum.splits)

lemma same_read_tags:
  "same_results s t \<Longrightarrow> same_results (read_tags_check gc s) (read_tags_check gc t)"
  by (auto simp add: same_results_def read_tags_check_def Let_def split: sum.splits)

lemma same_create:
  "same_results s t \<Longrightarrow> same_results (create_check gc s) (create_check gc t)"
  by (auto simp add: same_results_def create_check_def Let_def split: sum.splits)

lemma same_update:
  "same_results s t \<Longrightarrow> same_results (update_check gc s) (update_check gc t)"
  by (auto simp add: same_results_def update_check_def Let_def split: sum.splits)

lemma same_publish:
  "same_results s t \<Longrightarrow> same_results (publish_check gc s) (publish_check gc t)"
  by (auto simp add: same_results_def publish_check_def Let_def split: sum.splits)

lemma same_tag:
  "same_results s t \<Longrightarrow> same_results (tag_check gc s) (tag_check gc t)"
  by (auto simp add: same_results_def tag_check_def Let_def split: sum.splits)

lemma same_delete:
  "same_results s t \<Longrightarrow> same_results (delete_check E gc s) (delete_check E' gc t)"
  by (auto simp add: same_results_def delete_check_def Let_def split: sum.splits)

lemma same_members:
  "same_results s t \<Longrightarrow> same_results (members_check gc s) (members_check gc t)"
  by (auto simp add: same_results_def members_check_def Let_def split: sum.splits)

lemma same_checks:
  "same_results s t \<Longrightarrow> same_results (checks E gc s) (checks E' gc t)"
  unfolding checks_def
  by (intro same_members same_delete same_tag same_publish same_update same_create
        same_read_tags same_read_posts)

lemma main_outcome:
  "GhostClient V = Inr gc \<Longrightarrow> creds_file_exists V \<Longrightarrow>
   fst (main V) = (if snd (connect_check gc start)
                   then exit_status (res (checks (cleanup V) gc (fst (connect_check gc start))))
                   else Exit 1)"
  by (auto simp add: main_def Let_def split: prod.splits bool.splits)

lemma main_cleanup_independent:
  assumes "GhostClient V = Inr gc"
  shows "res (snd (main (V\<lparr>cleanup := E\<rparr>))) = res (snd (main V)) \<and>
         fst (main (V\<lparr>cleanup := E\<rparr>)) = fst (main V)"
proof (cases "creds_file_exists V")
  case False
  then show ?thesis by (simp add: main_def)
next
  case True
  have g: "GhostClient (V\<lparr>cleanup := E\<rparr>) = Inr gc" using assms by simp
  have t: "creds_file_exists (V\<lparr>cleanup := E\<rparr>)" using True by simp
  have s: "same_results (checks E gc (fst (connect_check gc start)))
             (checks (cleanup V) gc (fst (connect_check gc start)))"
    by (rule same_checks) simp
  then have r: "res (checks E gc (fst (connect_check gc start))) =
                res (checks (cleanup V) gc (fst (connect_check gc start)))"
    by (simp add: same_results_def)
  show ?thesis
    by (simp add: main_run [OF g t] main_run [OF assms True] main_outcome [OF g t]
          main_outcome [OF assms True] r)
qed

lemma main_exits:
  "GhostClient V = Inr gc \<Longrightarrow> fst (main V) = Exit 0 \<or> fst (main V) = Exit 1"
  by (cases "creds_file_exists V")
     (auto simp add: main_outcome main_no_creds exit_status_def)

text \<open>The expression of lines 131, 138 and 259 on a response without a total.\<close>

lemma total_missing_unknown:
  assumes m: "total_missing result"
  shows "pagination_total result = Inr (JStr ''?'')"
proof (cases result)
  case (JObj kvs)
  show ?thesis
  proof (cases "map_of kvs ''meta''")
    case None
    then show ?thesis by (simp add: JObj pagination_total_def then_do_def)
  next
    case (Some meta)
    show ?thesis
    proof (cases meta)
      case inner: (JObj mk)
      show ?thesis
      proof (cases "map_of mk ''pagination''")
        case None
        then show ?thesis by (simp add: JObj Some inner pagination_total_def then_do_def)
      next
        case pg: (Some pagination)
        show ?thesis
          using m by (cases pagination)
            (simp_all add: JObj Some inner pg total_missing_def pagination_total_def then_do_def)
      qed
    qed (use m in \<open>simp_all add: JObj Some total_missing_def\<close>)
  qed
qed (use m in \<open>simp_all add: total_missing_def\<close>)

section \<open>Facts about the concrete runs\<close>

lemma demo_run_trace:
  "trace (snd (main (demo_env no_keys working_cleanup))) =
     [GetSite, ListPosts, ListTags, CreatePost TEST_TITLE, UpdatePost (JStr ''p1''),
      PublishPost (JStr ''p1''), UnpublishPost (JStr ''p1''), CreateTag TEST_TAG,
      MakeJwt ''k1'' ''00ff'',
      RequestsDelete [Lit ''https://blog.example/ghost/api/admin'', Lit ''/posts/'', Val (JStr ''p1'')]
        [Lit ''Ghost '', Lit ''tok''],
      MakeJwt ''k1'' ''00ff'',
      RequestsDelete [Lit ''https://blog.example/ghost/api/admin'', Lit ''/tags/'', Val (JStr ''t1'')]
        [Lit ''Ghost '', Lit ''tok'']]"
  by (simp add: main_def demo_env_def demo_client_def working_cleanup_def no_keys_def checks_def
        section_defs flag_defs then_do_def pagination_total_def start_def Let_def)

lemma demo_policy:
  "policy_of no_keys = \<lparr>readonly_mode = False, allow_publish = True, allow_delete = False,
     allow_member_access = False\<rparr>"
  by (simp add: policy_of_def flag_defs no_keys_def)

lemma readonly_policy: "policy_of readonly_cfg = locked_policy"
  by (simp add: policy_of_def flag_defs readonly_cfg_def locked_policy_def)

lemma readonly_run:
  "snd (main (demo_env readonly_cfg failing_cleanup)) =
     \<lparr>res = \<lparr>passed = [''Connect'', ''Read posts'', ''Read tags''], failed = [],
             skipped = [''Write (create draft)'', ''Publish / Unpublish'', ''Write (create tag)'',
                        ''Delete (post)'', ''Delete (tag)'', ''Members (list)''],
             entries =
               [\<lparr>entry_status = ''pass'', entry_check = ''Connect'',
                 entry_detail = [Lit ''site='', Lit [CHR 0x22], Val (JStr ''Blog''),
                                 Lit [CHR 0x22], Lit ''  version='', Val (JStr ''5.0'')]\<rparr>,
                \<lparr>entry_status = ''pass'', entry_check = ''Read posts'',
                 entry_detail = [Val (JStr ''?''), Lit '' post(s) on this instance'']\<rparr>,
                \<lparr>entry_status = ''pass'', entry_check = ''Read tags'',
                 entry_detail = [Val (JStr ''?''), Lit '' tag(s) on this instance'']\<rparr>,
                \<lparr>entry_status = ''skip'', entry_check = ''Write (create draft)'',
                 entry_detail = [Lit ''readonly_mode=true'']\<rparr>,
                \<lparr>entry_status = ''skip'', entry_check = ''Publish / Unpublish'',
                 entry_detail = [Lit ''allow_publish=false'']\<rparr>,
                \<lparr>entry_status = ''skip'', entry_check = ''Write (create tag)'',
                 entry_detail = [Lit ''readonly_mode=true'']\<rparr>,
                \<lparr>entry_status = ''skip'', entry_check = ''Delete (post)'',
                 entry_detail = [Lit ''allow_delete=false'']\<rparr>,
                \<lparr>entry_status = ''skip'', entry_check = ''Delete (tag)'',
                 entry_detail = [Lit ''allow_delete=false'']\<rparr>,
                \<lparr>entry_status = ''skip'', entry_check = ''Members (list)'',
                 entry_detail = [Lit ''allow_member_access=false'']\<rparr>]\<rparr>,
      test_post_id = JNull, test_tag_id = JNull,
      trace = [GetSite, ListPosts, ListTags], warnings = []\<rparr>"
  by (simp add: main_def demo_env_def demo_client_def failing_cleanup_def readonly_cfg_def
        checks_def section_defs flag_defs then_do_def pagination_total_def start_def Let_def
        called_def note_ok_def note_fail_def note_skip_def results_defs exit_status_def)

lemma working_run:
  "fst (main (demo_env no_keys working_cleanup)) = Exit 0"
  "failed (res (snd (main (demo_env no_keys working_cleanup)))) = []"
  by (simp_all add: main_def demo_env_def demo_client_def working_cleanup_def
        no_keys_def checks_def section_defs flag_defs then_do_def pagination_total_def start_def
        Let_def called_def note_ok_def note_fail_def note_skip_def results_defs exit_status_def)

lemma failing_run_warnings:
  "warnings (snd (main (demo_env no_keys failing_cleanup))) =
     [ [Lit ''Test post '', Val (JStr ''p1''), Lit '' could not be cleaned up. Delete manually.''],
      [Lit ''Test tag '', Val (JStr ''t1''), Lit '' could not be cleaned up. Delete manually.'']]"
  by (simp add: main_def demo_env_def demo_client_def failing_cleanup_def
        no_keys_def checks_def section_defs flag_defs then_do_def pagination_total_def start_def
        Let_def called_def note_ok_def note_fail_def note_skip_def results_defs exit_status_def)

lemma demo_mint_at:
  "mint demo_primitives demo_creds t =
     Inr \<lparr>header = \<lparr>algorithm = ''HS256'', token_type = ''JWT'', kid = ''k1''\<rparr>,
          payload = \<lparr>issued_at = t, expires_at = t + 300, audience = ''/admin/''\<rparr>,
          signature = []\<rparr>"
  by (simp add: mint_def demo_creds_def demo_primitives_def hex_digit_def Let_def)


section \<open>Facts about the client core\<close>




text \<open>The server of the concrete round trip is such a server.\<close>

lemma posts_path [simp]:
  "post_of_path (''/posts/'' @ i) = Some i"
  "post_of_path (CHR ''/'' # CHR ''p'' # CHR ''o'' # CHR ''s'' # CHR ''t'' # CHR ''s'' # CHR ''/'' # i)
     = Some i"
  by (simp_all add: post_of_path_def)









section \<open>Mutating calls and the gate\<close>

text \<open>
  With an empty configuration \<^verbatim>\<open>allow_delete\<close> is off and the decision for a delete is a
  denial, yet the run sends \<^verbatim>\<open>requests.delete\<close> for the test post it created (lines 207
  to 214).
\<close>

theorem cleanup_delete_sent_without_gate:
  "\<not> delete_flag (cfg (demo_client no_keys)) \<and>
   check Delete (policy_of (cfg (demo_client no_keys))) = Deny ''allow_delete=false'' \<and>
   RequestsDelete [Lit ''https://blog.example/ghost/api/admin'', Lit ''/posts/'', Val (JStr ''p1'')]
       [Lit ''Ghost '', Lit ''tok'']
     \<in> set (trace (snd (main (demo_env no_keys working_cleanup))))"
proof -
  have c: "cfg (demo_client no_keys) = no_keys" by (simp add: demo_client_def)
  have f: "\<not> delete_flag no_keys" by (simp add: flag_defs no_keys_def)
  have d: "check Delete (policy_of no_keys) = Deny ''allow_delete=false''"
    by (simp add: demo_policy)
  show ?thesis unfolding c using f d by (simp add: demo_run_trace)
qed

text \<open>
  Claim C1, as the script has it. Every client operation \<^verbatim>\<open>main\<close> invokes is of a kind
  the decision allows under the loaded configuration. The only other calls are those of the
  cleanup branch: they are made only when \<^verbatim>\<open>allow_delete\<close> is off and
  \<^verbatim>\<open>readonly_mode\<close> is off, outside the client, and each request goes to the test post or
  the test tag the run created itself.
\<close>

theorem calls_gated_except_own_cleanup:
  assumes "GhostClient V = Inr gc"
  shows "\<forall>c \<in> set (trace (snd (main V))).
           (case kind_of c of
              Some k \<Rightarrow> check k (policy_of (cfg gc)) = Allow
            | None \<Rightarrow>
                \<not> delete_flag (cfg gc) \<and> \<not> ro_flag (cfg gc) \<and>
                (case c of RequestsDelete u a \<Rightarrow> cleanup_target gc u | _ \<Rightarrow> True))"
  using gated_main [OF assms] by (simp add: gated_run_def permitted_def)

theorem calls_gated_except_own_cleanup_witness:
  "GhostClient (demo_env no_keys working_cleanup) = Inr (demo_client no_keys) \<and>
   PublishPost (JStr ''p1'') \<in> set (trace (snd (main (demo_env no_keys working_cleanup)))) \<and>
   check Publish (policy_of (cfg (demo_client no_keys))) = Allow \<and>
   RequestsDelete [Lit ''https://blog.example/ghost/api/admin'', Lit ''/tags/'', Val (JStr ''t1'')]
       [Lit ''Ghost '', Lit ''tok'']
     \<in> set (trace (snd (main (demo_env no_keys working_cleanup)))) \<and>
   cleanup_target (demo_client no_keys)
     [Lit ''https://blog.example/ghost/api/admin'', Lit ''/tags/'', Val (JStr ''t1'')]"
proof -
  have g: "GhostClient (demo_env no_keys working_cleanup) = Inr (demo_client no_keys)"
    by (simp add: demo_env_def)
  have p: "PublishPost (JStr ''p1'') \<in> set (trace (snd (main (demo_env no_keys working_cleanup))))"
    by (simp add: demo_run_trace)
  have d: "RequestsDelete [Lit ''https://blog.example/ghost/api/admin'', Lit ''/tags/'', Val (JStr ''t1'')]
       [Lit ''Ghost '', Lit ''tok'']
     \<in> set (trace (snd (main (demo_env no_keys working_cleanup))))"
    by (simp add: demo_run_trace)
  note th = calls_gated_except_own_cleanup [OF g]
  from bspec [OF th p] bspec [OF th d] g p d show ?thesis by simp
qed

section \<open>The order of the rules\<close>

text \<open>
  Claim C2. For every policy and every operation kind the gate yields exactly one decision,
  allow or deny, and the decision follows the order of section 4.2 with the rule of
  \<^verbatim>\<open>readonly_mode\<close> first: when \<^verbatim>\<open>readonly_mode\<close> is on and the kind is neither \<open>Read\<close>
  nor \<open>MemberRead\<close>, the decision is a denial with the reason \<^verbatim>\<open>readonly_mode\<close>, whatever
  the other flags are; otherwise the rules of \<^verbatim>\<open>allow_publish\<close>, \<^verbatim>\<open>allow_delete\<close> and
  \<^verbatim>\<open>allow_member_access\<close> deny with their reasons, and where none applies the gate allows.
\<close>

theorem gate_total_readonly_first:
  "(spec_check kind policy = Allow \<or> (\<exists>reason. spec_check kind policy = Deny reason)) \<and>
   \<not> (spec_check kind policy = Allow \<and> (\<exists>reason. spec_check kind policy = Deny reason)) \<and>
   (readonly_mode policy \<and> kind \<noteq> Read \<and> kind \<noteq> MemberRead \<longrightarrow>
      spec_check kind policy = Deny ''readonly_mode'') \<and>
   (\<not> (readonly_mode policy \<and> kind \<noteq> Read \<and> kind \<noteq> MemberRead) \<longrightarrow>
      ((kind = Publish \<or> kind = Unpublish) \<and> \<not> allow_publish policy \<longrightarrow>
         spec_check kind policy = Deny ''allow_publish=false'') \<and>
      (kind = Delete \<and> \<not> allow_delete policy \<longrightarrow>
         spec_check kind policy = Deny ''allow_delete=false'') \<and>
      (kind = MemberRead \<and> \<not> allow_member_access policy \<longrightarrow>
         spec_check kind policy = Deny ''allow_member_access=false'') \<and>
      (\<not> ((kind = Publish \<or> kind = Unpublish) \<and> \<not> allow_publish policy) \<and>
       \<not> (kind = Delete \<and> \<not> allow_delete policy) \<and>
       \<not> (kind = MemberRead \<and> \<not> allow_member_access policy) \<longrightarrow>
         spec_check kind policy = Allow))"
  by (cases kind) (simp_all add: spec_check_def)

theorem gate_total_readonly_first_witness:
  "readonly_mode locked_policy \<and> \<not> allow_publish locked_policy \<and>
   spec_check Publish locked_policy = Deny ''readonly_mode'' \<and>
   spec_check Publish locked_policy \<noteq> Deny ''allow_publish=false'' \<and>
   spec_check Delete locked_policy = Deny ''readonly_mode'' \<and>
   spec_check MemberRead locked_policy = Deny ''allow_member_access=false'' \<and>
   spec_check Read locked_policy = Allow \<and>
   \<not> readonly_mode open_policy \<and> \<not> allow_delete open_policy \<and>
   spec_check Delete open_policy = Deny ''allow_delete=false'' \<and>
   spec_check Publish open_policy = Allow \<and>
   spec_check Publish (open_policy\<lparr>allow_publish := False\<rparr>) = Deny ''allow_publish=false''"
proof -
  have a: "readonly_mode locked_policy \<and> \<not> allow_publish locked_policy \<and>
           \<not> allow_delete locked_policy \<and> \<not> allow_member_access locked_policy"
    by (simp add: locked_policy_def)
  have b: "\<not> readonly_mode open_policy \<and> allow_publish open_policy \<and>
           \<not> allow_delete open_policy \<and> \<not> allow_member_access open_policy"
    by (simp add: open_policy_def)
  note p = gate_total_readonly_first [of Publish locked_policy]
  note d = gate_total_readonly_first [of Delete locked_policy]
  note m = gate_total_readonly_first [of MemberRead locked_policy]
  note r = gate_total_readonly_first [of Read locked_policy]
  note d' = gate_total_readonly_first [of Delete open_policy]
  note p' = gate_total_readonly_first [of Publish open_policy]
  note p'' = gate_total_readonly_first [of Publish "open_policy\<lparr>allow_publish := False\<rparr>"]
  from p d m r d' p' p'' a b show ?thesis by simp
qed

section \<open>A denied delete\<close>

text \<open>
  With \<^verbatim>\<open>allow_delete\<close> off and \<^verbatim>\<open>readonly_mode\<close> on, \<open>deletePost\<close> fails with the
  reason \<^verbatim>\<open>readonly_mode\<close>, the first rule of the gate, and not with
  \<^verbatim>\<open>allow_delete=false\<close>.
\<close>

theorem delete_reason_under_readonly:
  "\<not> allow_delete locked_policy \<and>
   deletePost demo_primitives forbidding locked_policy demo_creds 1000 ''abc123'' () =
     (Inl (PermissionDeniedError ''readonly_mode''), [], ()) \<and>
   fst (deletePost demo_primitives forbidding locked_policy demo_creds 1000 ''abc123'' ()) \<noteq>
     Inl (PermissionDeniedError ''allow_delete=false'')"
  by (simp add: deletePost_def resource_op_def spec_check_def locked_policy_def)

text \<open>
  Claim C3, as the gate of section 4.2 has it. For every policy with \<^verbatim>\<open>allow_delete\<close> off
  and every post identifier, \<open>deletePost\<close> fails with \<open>PermissionDeniedError\<close>, no request
  goes out and the remote state is untouched. The reason is \<^verbatim>\<open>allow_delete=false\<close> when
  \<^verbatim>\<open>readonly_mode\<close> is off, and \<^verbatim>\<open>readonly_mode\<close> when it is on.
\<close>

theorem delete_denied_without_request:
  assumes "\<not> allow_delete policy"
  shows "deletePost P T policy creds now i srv =
           (Inl (PermissionDeniedError
                   (if readonly_mode policy then ''readonly_mode'' else ''allow_delete=false'')),
            [], srv)"
  using assms by (simp add: deletePost_def resource_op_def spec_check_def)

theorem delete_denied_without_request_witness:
  "\<not> allow_delete locked_policy \<and> \<not> allow_delete open_policy \<and>
   deletePost demo_primitives forbidding locked_policy demo_creds 1000 ''abc123'' () =
     (Inl (PermissionDeniedError ''readonly_mode''), [], ()) \<and>
   deletePost demo_primitives forbidding open_policy demo_creds 1000 ''abc123'' () =
     (Inl (PermissionDeniedError ''allow_delete=false''), [], ())"
proof -
  have a: "\<not> allow_delete locked_policy \<and> readonly_mode locked_policy"
    by (simp add: locked_policy_def)
  have b: "\<not> allow_delete open_policy \<and> \<not> readonly_mode open_policy"
    by (simp add: open_policy_def)
  from delete_denied_without_request
         [of locked_policy demo_primitives forbidding demo_creds 1000 "''abc123''" "()"]
       delete_denied_without_request
         [of open_policy demo_primitives forbidding demo_creds 1000 "''abc123''" "()"] a b
  show ?thesis by simp
qed

section \<open>The token\<close>

text \<open>
  Claim C4. \<open>mint\<close> gives the same token, byte for byte on the wire, on the same
  credentials and time; the payload of a minted token is issued at the given time and
  expires exactly 300 seconds later. A secret that is not hexadecimal gives
  \<open>InvalidCredentialsError\<close>, any other secret gives a token.
\<close>

theorem mint_deterministic_expiry:
  "(creds = creds' \<and> now = now' \<longrightarrow>
      map_sum id (token_string P) (mint P creds now) =
      map_sum id (token_string P) (mint P creds' now')) \<and>
   (mint P creds now = Inr tok \<longrightarrow>
      issued_at (payload tok) = now \<and> expires_at (payload tok) = issued_at (payload tok) + 300) \<and>
   (hex_decode (cred_secret creds) = None \<longrightarrow> mint P creds now = Inl InvalidCredentialsError) \<and>
   (hex_decode (cred_secret creds) \<noteq> None \<longrightarrow> (\<exists>t. mint P creds now = Inr t))"
  by (auto simp add: mint_def Let_def split: option.splits)

theorem mint_deterministic_expiry_witness:
  "hex_decode (cred_secret demo_creds) = Some [0, 255] \<and>
   (\<exists>tok. mint demo_primitives demo_creds 1000 = Inr tok \<and>
          issued_at (payload tok) = 1000 \<and> expires_at (payload tok) = 1300) \<and>
   hex_decode (cred_secret (demo_creds\<lparr>cred_secret := ''0g''\<rparr>)) = None \<and>
   mint demo_primitives (demo_creds\<lparr>cred_secret := ''0g''\<rparr>) 1000 = Inl InvalidCredentialsError"
proof -
  have n: "hex_decode (cred_secret (demo_creds\<lparr>cred_secret := ''0g''\<rparr>)) = None"
    by (simp add: hex_digit_def)
  note bad = mint_deterministic_expiry
    [of "demo_creds\<lparr>cred_secret := ''0g''\<rparr>" "demo_creds\<lparr>cred_secret := ''0g''\<rparr>"
        1000 1000 demo_primitives]
  from bad n
  have b: "mint demo_primitives (demo_creds\<lparr>cred_secret := ''0g''\<rparr>) 1000 =
             Inl InvalidCredentialsError" by simp
  have h: "hex_decode (cred_secret demo_creds) = Some [0, 255]"
    by (simp add: demo_creds_def hex_digit_def)
  note th = mint_deterministic_expiry [of demo_creds demo_creds 1000 1000 demo_primitives]
  from th h obtain t where t: "mint demo_primitives demo_creds 1000 = Inr t" by auto
  from mint_deterministic_expiry [of demo_creds demo_creds 1000 1000 demo_primitives t] t
  have "issued_at (payload t) = 1000 \<and> expires_at (payload t) = 1300" by simp
  with h t n b show ?thesis by blast
qed

section \<open>A remote rejection\<close>

text \<open>
  Claim C5. When the remote side answers a request with status 401 or 403, the executor
  fails with \<open>AuthenticationError\<close>, and with no \<open>PermissionDeniedError\<close>.
\<close>

theorem remote_rejection_is_authentication_error:
  assumes "mint P creds now = Inr tok"
      and "T srv (build_request P tok m path b) = (Some resp, srv')"
      and "status resp = 401 \<or> status resp = 403"
  shows "fst (execute P T creds now m path b srv) = Inl AuthenticationError \<and>
         (\<forall>reason. fst (execute P T creds now m path b srv) \<noteq> Inl (PermissionDeniedError reason))"
  using assms
  by (auto simp add: execute_def send_def then_do_def interpret_response_def Let_def)

theorem remote_rejection_is_authentication_error_witness:
  "(\<exists>tok. mint demo_primitives demo_creds 1000 = Inr tok \<and>
      forbidding () (build_request demo_primitives tok ''GET'' ''/posts/'' None) =
        (Some \<lparr>status = 403, body = ''Forbidden''\<rparr>, ())) \<and>
   fst (execute demo_primitives forbidding demo_creds 1000 ''GET'' ''/posts/'' None ()) =
     Inl AuthenticationError"
proof -
  obtain tok where t: "mint demo_primitives demo_creds 1000 = Inr tok"
    using demo_mint_at by blast
  have f: "forbidding () (build_request demo_primitives tok ''GET'' ''/posts/'' None) =
        (Some \<lparr>status = 403, body = ''Forbidden''\<rparr>, ())"
    by (simp add: forbidding_def)
  have s: "status \<lparr>status = 403, body = ''Forbidden''\<rparr> = 401 \<or>
           status \<lparr>status = 403, body = ''Forbidden''\<rparr> = 403" by simp
  from remote_rejection_is_authentication_error
         [where T = forbidding and srv = "()" and P = demo_primitives, OF t f s] t f
  show ?thesis by blast
qed

section \<open>A list response without a total\<close>

text \<open>
  Claim C6. When a list call returns a response in which \<^verbatim>\<open>meta.pagination.total\<close> is
  missing, the total the script works with is the unknown mark \<^verbatim>\<open>?\<close> and no exception
  is raised: the check of posts, of tags and of members is recorded as passed, with the mark
  in its detail.
\<close>

theorem missing_total_is_unknown:
  "total_missing result \<longrightarrow>
     pagination_total result = Inr (JStr ''?'') \<and>
     (list_posts gc = Inr result \<longrightarrow>
        read_posts_check gc s =
          note_ok ''Read posts'' [Val (JStr ''?''), Lit '' post(s) on this instance'']
            (called ListPosts s)) \<and>
     (list_tags gc = Inr result \<longrightarrow>
        read_tags_check gc s =
          note_ok ''Read tags'' [Val (JStr ''?''), Lit '' tag(s) on this instance'']
            (called ListTags s)) \<and>
     (list_members gc = Inr result \<and> member_flag (cfg gc) \<longrightarrow>
        members_check gc s =
          note_ok ''Members (list)'' [Val (JStr ''?''), Lit '' member(s)'']
            (called ListMembers s))"
proof
  assume m: "total_missing result"
  obtain kvs where r: "result = JObj kvs"
    using m by (auto simp add: total_missing_def split: jval.splits)
  note u = total_missing_unknown [OF m]
  show "pagination_total result = Inr (JStr ''?'') \<and>
     (list_posts gc = Inr result \<longrightarrow>
        read_posts_check gc s =
          note_ok ''Read posts'' [Val (JStr ''?''), Lit '' post(s) on this instance'']
            (called ListPosts s)) \<and>
     (list_tags gc = Inr result \<longrightarrow>
        read_tags_check gc s =
          note_ok ''Read tags'' [Val (JStr ''?''), Lit '' tag(s) on this instance'']
            (called ListTags s)) \<and>
     (list_members gc = Inr result \<and> member_flag (cfg gc) \<longrightarrow>
        members_check gc s =
          note_ok ''Members (list)'' [Val (JStr ''?''), Lit '' member(s)'']
            (called ListMembers s))"
    using u by (simp add: read_posts_check_def read_tags_check_def members_check_def
          then_do_def r Let_def)
qed

theorem missing_total_is_unknown_witness:
  "total_missing (JObj [(''posts'', JArr []), (''meta'', JObj [(''pagination'', JObj [])])]) \<and>
   list_posts (demo_client no_keys) =
     Inr (JObj [(''posts'', JArr []), (''meta'', JObj [(''pagination'', JObj [])])]) \<and>
   pagination_total (JObj [(''posts'', JArr []), (''meta'', JObj [(''pagination'', JObj [])])]) =
     Inr (JStr ''?'') \<and>
   read_posts_check (demo_client no_keys) start =
     note_ok ''Read posts'' [Val (JStr ''?''), Lit '' post(s) on this instance'']
       (called ListPosts start) \<and>
   total_missing (JObj [(''tags'', JArr [])]) \<and>
   list_tags (demo_client no_keys) = Inr (JObj [(''tags'', JArr [])]) \<and>
   read_tags_check (demo_client no_keys) start =
     note_ok ''Read tags'' [Val (JStr ''?''), Lit '' tag(s) on this instance'']
       (called ListTags start)"
proof -
  have m': "total_missing (JObj [(''tags'', JArr [])])"
    by (simp add: total_missing_def)
  have l': "list_tags (demo_client no_keys) = Inr (JObj [(''tags'', JArr [])])"
    by (simp add: demo_client_def)
  have m: "total_missing (JObj [(''posts'', JArr []), (''meta'', JObj [(''pagination'', JObj [])])])"
    by (simp add: total_missing_def)
  have l: "list_posts (demo_client no_keys) =
     Inr (JObj [(''posts'', JArr []), (''meta'', JObj [(''pagination'', JObj [])])])"
    by (simp add: demo_client_def)
  from missing_total_is_unknown
    [of "JObj [(''posts'', JArr []), (''meta'', JObj [(''pagination'', JObj [])])]"
        "demo_client no_keys" start]
       missing_total_is_unknown [of "JObj [(''tags'', JArr [])]" "demo_client no_keys" start]
       m l m' l'
  show ?thesis by simp
qed

section \<open>Publish, then unpublish\<close>



section \<open>The defaults of the configuration\<close>

text \<open>
  Claim C8. Where a key is absent from the configuration, the script works with
  \<^verbatim>\<open>readonly_mode\<close> false, \<^verbatim>\<open>allow_publish\<close> true, \<^verbatim>\<open>allow_delete\<close> false and
  \<^verbatim>\<open>allow_member_access\<close> false.
\<close>

theorem absent_key_defaults:
  "(c ''readonly_mode'' = None \<longrightarrow> \<not> ro_flag c) \<and>
   (c ''allow_publish'' = None \<longrightarrow> publish_flag c) \<and>
   (c ''allow_delete'' = None \<longrightarrow> \<not> delete_flag c) \<and>
   (c ''allow_member_access'' = None \<longrightarrow> \<not> member_flag c)"
  by (simp add: flag_defs)

theorem absent_key_defaults_witness:
  "no_keys ''readonly_mode'' = None \<and> no_keys ''allow_publish'' = None \<and>
   no_keys ''allow_delete'' = None \<and> no_keys ''allow_member_access'' = None \<and>
   \<not> ro_flag no_keys \<and> publish_flag no_keys \<and> \<not> delete_flag no_keys \<and> \<not> member_flag no_keys"
  using absent_key_defaults [of no_keys] by (simp add: no_keys_def)

section \<open>A read-only run\<close>

text \<open>
  Claim C9. In a run whose configuration has \<^verbatim>\<open>readonly_mode\<close> on, every call made is
  one of the four reads; no mutating client call, no token for the cleanup and no cleanup
  request is made; the two test identifiers are never set; and once the connection check
  has passed, the create, publish, tag and delete checks are all recorded as skipped.
\<close>

theorem readonly_run_makes_no_mutating_call:
  assumes "GhostClient V = Inr gc" and "ro_flag (cfg gc)"
  shows "(\<forall>c \<in> set (trace (snd (main V))). c \<in> {GetSite, ListPosts, ListTags, ListMembers}) \<and>
         test_post_id (snd (main V)) = JNull \<and> test_tag_id (snd (main V)) = JNull \<and>
         (creds_file_exists V \<and> snd (connect_check gc start) \<longrightarrow>
            skipped (res (snd (main V))) =
              [''Write (create draft)'', ''Publish / Unpublish'', ''Write (create tag)'',
               ''Delete (post)'', ''Delete (tag)''] @
              (if member_flag (cfg gc) then [] else [''Members (list)'']))"
proof -
  have g: "gated_run gc (snd (main V))" by (rule gated_main [OF assms(1)])
  have a: "\<forall>c \<in> set (trace (snd (main V))). c \<in> {GetSite, ListPosts, ListTags, ListMembers}"
    using g assms(2) readonly_permitted [of gc] unfolding gated_run_def by blast
  have b: "test_post_id (snd (main V)) = JNull \<and> test_tag_id (snd (main V)) = JNull"
    using g assms(2) by (simp add: gated_run_def)
  have c: "skipped (res (snd (main V))) =
              [''Write (create draft)'', ''Publish / Unpublish'', ''Write (create tag)'',
               ''Delete (post)'', ''Delete (tag)''] @
              (if member_flag (cfg gc) then [] else [''Members (list)''])"
    if "creds_file_exists V" "snd (connect_check gc start)"
    using that readonly_checks_skipped [OF assms(2), of "fst (connect_check gc start)" "cleanup V"]
    by (simp add: main_run [OF assms(1)] start_def Results_def)
  from a b c show ?thesis by blast
qed

theorem readonly_run_makes_no_mutating_call_witness:
  "GhostClient (demo_env readonly_cfg failing_cleanup) = Inr (demo_client readonly_cfg) \<and>
   ro_flag (cfg (demo_client readonly_cfg)) \<and>
   trace (snd (main (demo_env readonly_cfg failing_cleanup))) = [GetSite, ListPosts, ListTags] \<and>
   test_post_id (snd (main (demo_env readonly_cfg failing_cleanup))) = JNull \<and>
   test_tag_id (snd (main (demo_env readonly_cfg failing_cleanup))) = JNull \<and>
   creds_file_exists (demo_env readonly_cfg failing_cleanup) \<and>
   snd (connect_check (demo_client readonly_cfg) start) \<and>
   skipped (res (snd (main (demo_env readonly_cfg failing_cleanup)))) =
     [''Write (create draft)'', ''Publish / Unpublish'', ''Write (create tag)'',
      ''Delete (post)'', ''Delete (tag)'', ''Members (list)'']"
proof -
  have f: "creds_file_exists (demo_env readonly_cfg failing_cleanup)"
    by (simp add: demo_env_def)
  have k: "snd (connect_check (demo_client readonly_cfg) start)"
    by (simp add: connect_check_def demo_client_def then_do_def Let_def)
  have n: "\<not> member_flag (cfg (demo_client readonly_cfg))"
    by (simp add: demo_client_def flag_defs readonly_cfg_def)
  have g: "GhostClient (demo_env readonly_cfg failing_cleanup) = Inr (demo_client readonly_cfg)"
    by (simp add: demo_env_def)
  have r: "ro_flag (cfg (demo_client readonly_cfg))"
    by (simp add: demo_client_def flag_defs readonly_cfg_def)
  have t: "trace (snd (main (demo_env readonly_cfg failing_cleanup))) = [GetSite, ListPosts, ListTags]"
    by (simp add: readonly_run)
  from readonly_run_makes_no_mutating_call [OF g r] g r t f k n show ?thesis by simp
qed

section \<open>A failing cleanup\<close>

text \<open>
  Claim C10. In a run with \<^verbatim>\<open>allow_delete\<close> off, whatever the import, the token
  function and the delete request of the cleanup do, return or raise, the recorded results,
  the three numbers of the summary and the exit status are the same; the run ends with an
  exit status and not with an exception.
\<close>

theorem cleanup_failure_is_not_recorded:
  assumes "GhostClient V = Inr gc" and "\<not> delete_flag (cfg gc)"
  shows "res (snd (main (V\<lparr>cleanup := E\<rparr>))) = res (snd (main V)) \<and>
         summary (res (snd (main (V\<lparr>cleanup := E\<rparr>)))) = summary (res (snd (main V))) \<and>
         fst (main (V\<lparr>cleanup := E\<rparr>)) = fst (main V) \<and>
         (fst (main (V\<lparr>cleanup := E\<rparr>)) = Exit 0 \<or> fst (main (V\<lparr>cleanup := E\<rparr>)) = Exit 1)"
  using main_cleanup_independent [OF assms(1), of E] main_exits [OF assms(1)]
  by simp

theorem cleanup_failure_is_not_recorded_witness:
  "GhostClient (demo_env no_keys working_cleanup) = Inr (demo_client no_keys) \<and>
   \<not> delete_flag (cfg (demo_client no_keys)) \<and>
   requests_delete failing_cleanup [] [] = Inl (OtherException ''ConnectionError'') \<and>
   warnings (snd (main (demo_env no_keys failing_cleanup))) =
     [ [Lit ''Test post '', Val (JStr ''p1''), Lit '' could not be cleaned up. Delete manually.''],
      [Lit ''Test tag '', Val (JStr ''t1''), Lit '' could not be cleaned up. Delete manually.'']] \<and>
   res (snd (main (demo_env no_keys failing_cleanup))) =
     res (snd (main (demo_env no_keys working_cleanup))) \<and>
   fst (main (demo_env no_keys failing_cleanup)) = Exit 0 \<and>
   failed (res (snd (main (demo_env no_keys failing_cleanup)))) = []"
proof -
  have g: "GhostClient (demo_env no_keys working_cleanup) = Inr (demo_client no_keys)"
    by (simp add: demo_env_def)
  have d: "\<not> delete_flag (cfg (demo_client no_keys))"
    by (simp add: demo_client_def flag_defs no_keys_def)
  have e: "(demo_env no_keys working_cleanup)\<lparr>cleanup := failing_cleanup\<rparr> =
     demo_env no_keys failing_cleanup"
    by (simp add: demo_env_def)
  have q: "requests_delete failing_cleanup [] [] = Inl (OtherException ''ConnectionError'')"
    by (simp add: failing_cleanup_def)
  from cleanup_failure_is_not_recorded [OF g d, of failing_cleanup] g d q
  show ?thesis unfolding e by (simp add: working_run failing_run_warnings)
qed

end
